theory Spec2Isabelle
  imports Main
begin

section \<open>The Whanos build orchestrator (src/orchestrator/main.py)\<close>

text \<open>
  A shallow embedding of the orchestrator script. Conventions:
  \<^item> A Python \<open>str\<close> is a \<open>string\<close>; each character is read as one code point in
    U+0000..U+00FF.
  \<^item> Everything the script reads from outside itself (the process environment, the file
    tree below the resolved \<open>--repo\<close> path, the outcome of the external commands, the
    name of the temporary file, the decoder \<open>json.loads\<close> of the standard library) is a
    field of the record \<open>world\<close>. A function of the source that takes \<open>repo_root\<close> or
    reads \<open>os.environ\<close> takes the world as its first argument instead.
  \<^item> A path below \<open>repo_root\<close> is the list of its components:
    \<open>repo_root / "app" / "main.bf"\<close> is \<open>[''app'', ''main.bf'']\<close>.
  \<^item> An exception is a value of type \<open>error\<close>; a function that can raise returns
    \<open>error + 'a\<close>, with \<open>Inl\<close> the exception raised.
  \<^item> What the script changes (the external commands it has started, the temporary
    descriptor file) is the record \<open>sys_state\<close>, passed through and returned.
  \<^item> Calls of \<open>print\<close> are left out.
\<close>

subsection \<open>Strings\<close>

text \<open>\<open>sep.join(xs)\<close>.\<close>

fun join :: "string \<Rightarrow> string list \<Rightarrow> string" where
  "join sep [] = []"
| "join sep [x] = x"
| "join sep (x # y # ys) = x @ sep @ join sep (y # ys)"

text \<open>\<open>s.split(sep)\<close> for a separator of one character.\<close>

fun split_on :: "char \<Rightarrow> string \<Rightarrow> string list" where
  "split_on sep [] = [[]]"
| "split_on sep (c # cs) =
     (if c = sep then [] # split_on sep cs
      else (case split_on sep cs of
              [] \<Rightarrow> [[c]]
            | x # xs \<Rightarrow> (c # x) # xs))"

text \<open>
  \<open>str.isspace\<close> on the code points below 256, and \<open>s.strip()\<close>, which removes the
  leading and the trailing whitespace.
\<close>

definition is_space :: "char \<Rightarrow> bool" where
  "is_space c = (c \<in> set [CHR 0x09, CHR 0x0A, CHR 0x0B, CHR 0x0C, CHR 0x0D,
                           CHR 0x1C, CHR 0x1D, CHR 0x1E, CHR 0x1F, CHR 0x20,
                           CHR 0x85, CHR 0xA0])"

definition strip :: "string \<Rightarrow> string" where
  "strip s = rev (dropWhile is_space (rev (dropWhile is_space s)))"

text \<open>\<open>sub in s\<close> on strings: \<open>sub\<close> occurs in \<open>s\<close> as a contiguous run.\<close>

fun contains :: "string \<Rightarrow> string \<Rightarrow> bool" where
  "contains sub [] = (sub = [])"
| "contains sub (c # cs) = (if take (length sub) (c # cs) = sub then True else contains sub cs)"

text \<open>\<open>str(n)\<close> for an integer, used for the exit code in an error message.\<close>

fun str_nat :: "nat \<Rightarrow> string" where
  "str_nat n = (if n < 10 then [''0123456789'' ! n]
                else str_nat (n div 10) @ [''0123456789'' ! (n mod 10)])"

declare str_nat.simps [simp del]

definition str_int :: "int \<Rightarrow> string" where
  "str_int i = (if i < 0 then CHR ''-'' # str_nat (nat (- i)) else str_nat (nat i))"

text \<open>
  What reading a file in text mode does to its line endings. \<open>Path.read_text\<close> opens the
  file with \<open>newline=None\<close> (universal newlines): every carriage return followed by a
  line feed, and every other carriage return, comes out as one line feed.
\<close>

fun universal_newlines :: "string \<Rightarrow> string" where
  "universal_newlines [] = []"
| "universal_newlines (c # d # ds) =
     (if c = CHR 0x0D \<and> d = CHR 0x0A then CHR 0x0A # universal_newlines ds
      else if c = CHR 0x0D then CHR 0x0A # universal_newlines (d # ds)
      else c # universal_newlines (d # ds))"
| "universal_newlines [c] = (if c = CHR 0x0D then [CHR 0x0A] else [c])"

subsection \<open>Values read from outside\<close>

text \<open>
  The exceptions that can reach the caller. \<open>OrchestratorError\<close> is the script's own
  class and carries its message; the others are Python's. \<open>OSError\<close> stands for every
  \<open>OSError\<close> that is not one of the three subclasses named here.
\<close>

datatype error =
    OrchestratorError string
  | FileNotFoundError
  | PermissionError
  | IsADirectoryError
  | OSError
  | UnicodeDecodeError
  | AttributeError
  | TypeError
  | KeyError

text \<open>
  What \<open>json.loads\<close> returns. \<open>JObj\<close> is a \<open>dict\<close> in insertion order, with distinct
  keys. \<open>JNum\<close> carries a number; the script only observes whether it is zero, and a
  float is represented by an integer that is zero exactly when the float is.
\<close>

datatype json =
    JNull
  | JBool bool
  | JNum int
  | JStr string
  | JArr "json list"
  | JObj "(string \<times> json) list"

text \<open>
  What \<open>subprocess.run\<close> observes of a command: it ran and left an exit code, its
  standard output and its standard error, or it could not be started (an \<open>OSError\<close>).
\<close>

datatype proc_outcome =
    Exited int string string
  | NotStarted

type_synonym path = "string list"

record world =
  environ :: "string \<Rightarrow> string option"
  repo_root :: string
  is_dir :: bool
  exists :: "path \<Rightarrow> bool"
  is_symlink :: "path \<Rightarrow> bool"
  file_content :: "path \<Rightarrow> error + string"
  json_loads :: "string \<Rightarrow> json option"
  subprocess_run :: "string list \<Rightarrow> string option \<Rightarrow> proc_outcome"
  tmp_name :: string
  unlink_raises :: bool

text \<open>
  \<^item> \<open>environ w k\<close> is \<open>os.environ.get(k)\<close>; \<open>None\<close> when the variable is not set.
  \<^item> \<open>repo_root w\<close> is \<open>str(repo_root)\<close> and \<open>is_dir w\<close> is \<open>repo_root.is_dir()\<close>.
  \<^item> \<open>exists w p\<close> and \<open>is_symlink w p\<close> are the methods of \<open>pathlib.Path\<close> on the path
    \<open>p\<close> below \<open>repo_root\<close>.
  \<^item> \<open>file_content w p\<close> is the raw content of the file at \<open>p\<close>, character by character
    with its line endings as they are stored, or the exception that opening, reading or
    decoding the file raises. Decoding and later encoding with the same codec give back
    the stored bytes, so the characters stand for the bytes.
  \<^item> \<open>json_loads w t\<close> is \<open>json.loads(t)\<close>; \<open>None\<close> is \<open>json.JSONDecodeError\<close>.
  \<^item> \<open>subprocess_run w argv input\<close> is what the command \<open>argv\<close> does when it is given
    \<open>input\<close> on its standard input.
  \<^item> \<open>tmp_name w\<close> is the name \<open>tempfile.NamedTemporaryFile\<close> chooses.
  \<^item> \<open>unlink_raises w\<close> holds when \<open>tmp_path.unlink(missing_ok=True)\<close> raises an
    \<open>OSError\<close>; the file is then still there.
\<close>

record sys_state =
  invoked :: "(string list \<times> string option) list"
  tmp_file :: "string option"

text \<open>
  \<open>invoked s\<close> lists the external commands started so far, oldest first, each with the
  text given on its standard input. \<open>tmp_file s\<close> is the content of the temporary
  descriptor file while the file exists, and \<open>None\<close> when it does not exist.
\<close>

subsection \<open>Process runner\<close>

text \<open>
  \<open>run_command\<close> (lines 27-48) with the defaults every caller uses: \<open>cwd=None\<close>,
  \<open>check=True\<close>, \<open>capture_output=False\<close>. Without capture the exception's \<open>stdout\<close> and
  \<open>stderr\<close> are \<open>None\<close>, which the message formats as \<open>None\<close>.
\<close>

definition run_command :: "world \<Rightarrow> string list \<Rightarrow> sys_state \<Rightarrow> (error + unit) \<times> sys_state" where
  "run_command w command s =
     (let s' = s\<lparr>invoked := invoked s @ [(command, None)]\<rparr> in
      case subprocess_run w command None of
        NotStarted \<Rightarrow> (Inl OSError, s')
      | Exited returncode out err \<Rightarrow>
          if returncode \<noteq> 0
          then (Inl (OrchestratorError
                  (''Command failed with exit code '' @ str_int returncode @ '': ''
                   @ join '' '' command @ ''\<newline>stdout:\<newline>None\<newline>\<newline>stderr:\<newline>None'')), s')
          else (Inr (), s'))"

definition path_exists :: "world \<Rightarrow> path \<Rightarrow> bool" where
  "path_exists w p = (exists w p \<or> is_symlink w p)"

text \<open>
  \<open>Path.read_text\<close>, as lines 142, 420 and 423 call it: the file is read in text mode,
  so the text the script gets is the raw content with universal newlines applied. An
  exception of the read goes to the caller.
\<close>

definition read_text :: "world \<Rightarrow> path \<Rightarrow> error + string" where
  "read_text w p =
     (case file_content w p of
        Inl e \<Rightarrow> Inl e
      | Inr raw \<Rightarrow> Inr (universal_newlines raw))"

subsection \<open>Language profiles\<close>

record LanguageConfig =
  name :: string
  detector :: "world \<Rightarrow> bool"
  base_image_env :: string
  default_base_image :: string
  test_command :: "world \<Rightarrow> error + string list option"
  dockerfile_instructions :: "world \<Rightarrow> string list"

definition detect_c :: "world \<Rightarrow> bool" where
  "detect_c w = path_exists w [''Makefile'']"

definition detect_java :: "world \<Rightarrow> bool" where
  "detect_java w = path_exists w [''pom.xml'']"

definition detect_javascript :: "world \<Rightarrow> bool" where
  "detect_javascript w = path_exists w [''package.json'']"

definition detect_python :: "world \<Rightarrow> bool" where
  "detect_python w = path_exists w [''requirements.txt'']"

definition detect_befunge :: "world \<Rightarrow> bool" where
  "detect_befunge w = path_exists w [''app'', ''main.bf'']"

definition test_command_none :: "world \<Rightarrow> error + string list option" where
  "test_command_none w = Inr None"

definition docker_steps_c :: "world \<Rightarrow> string list" where
  \<open>docker_steps_c w = [''COPY . .'', ''RUN make'', ''CMD ["./compiled-app"]'']\<close>

definition docker_steps_java :: "world \<Rightarrow> string list" where
  \<open>docker_steps_java w =
     [''COPY . .'', ''RUN mvn -DskipTests package'', ''CMD ["java", "-jar", "target/app.jar"]'']\<close>

definition docker_steps_javascript :: "world \<Rightarrow> string list" where
  \<open>docker_steps_javascript w =
     [''COPY package*.json ./'',
      ''RUN npm ci --omit=dev || npm install --production'',
      ''COPY . .'',
      ''CMD ["node", "."]'']\<close>

definition docker_steps_python :: "world \<Rightarrow> string list" where
  \<open>docker_steps_python w =
     (if path_exists w [''requirements.txt'']
      then [''COPY requirements.txt ./'', ''RUN pip install --no-cache-dir -r requirements.txt'']
      else [''# requirements.txt missing; skipping dependency installation''])
     @ [''COPY . .'', ''CMD ["python", "-m", "app"]'']\<close>

definition docker_steps_befunge :: "world \<Rightarrow> string list" where
  \<open>docker_steps_befunge w = [''COPY . .'', ''CMD ["befunge93", "app/main.bf"]'']\<close>

definition test_command_java :: "world \<Rightarrow> error + string list option" where
  "test_command_java w = Inr (Some [''mvn'', ''test''])"

text \<open>
  Truth value of a decoded JSON value, as \<open>or\<close> tests it, and \<open>"test" in scripts\<close>: key
  membership in a dict, element membership in a list, substring in a string, and a
  \<open>TypeError\<close> on a number or a boolean.
\<close>

fun truthy :: "json \<Rightarrow> bool" where
  "truthy JNull = False"
| "truthy (JBool b) = b"
| "truthy (JNum n) = (n \<noteq> 0)"
| "truthy (JStr s) = (s \<noteq> [])"
| "truthy (JArr xs) = (xs \<noteq> [])"
| "truthy (JObj kvs) = (kvs \<noteq> [])"

fun py_in :: "string \<Rightarrow> json \<Rightarrow> error + bool" where
  "py_in k (JObj kvs) = Inr (k \<in> set (map fst kvs))"
| "py_in k (JArr xs) = Inr (JStr k \<in> set xs)"
| "py_in k (JStr s) = Inr (contains k s)"
| "py_in k JNull = Inl TypeError"
| "py_in k (JBool b) = Inl TypeError"
| "py_in k (JNum n) = Inl TypeError"

text \<open>
  \<open>test_command_javascript\<close> (lines 139-149). Only \<open>FileNotFoundError\<close> and
  \<open>json.JSONDecodeError\<close> are caught; \<open>data.get\<close> exists on a dict only.
\<close>

definition test_command_javascript :: "world \<Rightarrow> error + string list option" where
  "test_command_javascript w =
     (case read_text w [''package.json''] of
        Inl e \<Rightarrow> (if e = FileNotFoundError then Inr None else Inl e)
      | Inr text \<Rightarrow>
          (case json_loads w text of
             None \<Rightarrow> Inr None
           | Some data \<Rightarrow>
               (case data of
                  JObj kvs \<Rightarrow>
                    (let got = (case map_of kvs ''scripts'' of None \<Rightarrow> JNull | Some v \<Rightarrow> v);
                         scripts = (if truthy got then got else JObj [])
                     in case py_in ''test'' scripts of
                          Inl e \<Rightarrow> Inl e
                        | Inr b \<Rightarrow> if b then Inr (Some [''npm'', ''test'', ''--'', ''--watch=false''])
                                   else Inr None)
                | _ \<Rightarrow> Inl AttributeError)))"

definition test_command_python :: "world \<Rightarrow> error + string list option" where
  "test_command_python w =
     (let pytest_markers = [[''tests''], [''test''], [''pytest.ini'']] in
      if list_ex (path_exists w) pytest_markers
      then Inr (Some [''python'', ''-m'', ''pytest''])
      else Inr None)"

definition LANGUAGE_CONFIGS :: "(string \<times> LanguageConfig) list" where
  "LANGUAGE_CONFIGS =
     [(''c'', \<lparr>name = ''c'', detector = detect_c,
              base_image_env = ''WHANOS_BASE_IMAGE_C'',
              default_base_image = ''whanos-c:latest'',
              test_command = test_command_none,
              dockerfile_instructions = docker_steps_c\<rparr>),
      (''java'', \<lparr>name = ''java'', detector = detect_java,
              base_image_env = ''WHANOS_BASE_IMAGE_JAVA'',
              default_base_image = ''whanos-java:latest'',
              test_command = test_command_java,
              dockerfile_instructions = docker_steps_java\<rparr>),
      (''javascript'', \<lparr>name = ''javascript'', detector = detect_javascript,
              base_image_env = ''WHANOS_BASE_IMAGE_JAVASCRIPT'',
              default_base_image = ''whanos-javascript:latest'',
              test_command = test_command_javascript,
              dockerfile_instructions = docker_steps_javascript\<rparr>),
      (''python'', \<lparr>name = ''python'', detector = detect_python,
              base_image_env = ''WHANOS_BASE_IMAGE_PYTHON'',
              default_base_image = ''whanos-python:latest'',
              test_command = test_command_python,
              dockerfile_instructions = docker_steps_python\<rparr>),
      (''befunge'', \<lparr>name = ''befunge'', detector = detect_befunge,
              base_image_env = ''WHANOS_BASE_IMAGE_BEFUNGE'',
              default_base_image = ''whanos-befunge:latest'',
              test_command = test_command_none,
              dockerfile_instructions = docker_steps_befunge\<rparr>)]"

text \<open>
  \<open>detect_language\<close> (lines 207-227). The dict is walked in insertion order;
  \<open>matches[0][1]\<close> is reached only when \<open>matches\<close> has exactly one element.
\<close>

definition detect_language :: "world \<Rightarrow> error + LanguageConfig" where
  "detect_language w =
     (let matches = filter (\<lambda>(language, config). detector config w) LANGUAGE_CONFIGS in
      if matches = []
      then Inl (OrchestratorError
             (''Unable to detect repository language. ''
              @ ''Make sure the repo contains exactly one of: ''
              @ ''Makefile, pom.xml, package.json, requirements.txt, app/main.bf.''))
      else if length matches > 1
      then Inl (OrchestratorError
             (''Repository matches multiple language detectors: ''
              @ join '', '' (map fst matches) @ ''. ''
              @ ''Ensure it only meets one language criterion.''))
      else Inr (snd (matches ! 0)))"

text \<open>\<open>resolve_base_image\<close> (lines 230-231): \<open>os.environ.get(key, default)\<close>.\<close>

definition resolve_base_image :: "world \<Rightarrow> LanguageConfig \<Rightarrow> string" where
  "resolve_base_image w config =
     (case environ w (base_image_env config) of
        Some v \<Rightarrow> v
      | None \<Rightarrow> default_base_image config)"

subsection \<open>Test stage\<close>

text \<open>
  \<open>build_test_in_container\<close> (lines 234-261). \<open>not test_command\<close> holds for \<open>None\<close> and
  for the empty list.
\<close>

definition build_test_in_container ::
  "world \<Rightarrow> LanguageConfig \<Rightarrow> bool \<Rightarrow> sys_state \<Rightarrow> (error + unit) \<times> sys_state" where
  "build_test_in_container w config skip_tests s =
     (if skip_tests then (Inr (), s)
      else case test_command config w of
             Inl e \<Rightarrow> (Inl e, s)
           | Inr None \<Rightarrow> (Inr (), s)
           | Inr (Some test_cmd) \<Rightarrow>
               if test_cmd = [] then (Inr (), s)
               else (let base_image = resolve_base_image w config;
                         command = [''docker'', ''run'', ''--rm'', ''-v'', repo_root w @ '':/app'',
                                    ''-w'', ''/app'', base_image] @ test_cmd
                     in run_command w command s))"

subsection \<open>Descriptor synthesis\<close>

text \<open>
  \<open>render_dockerfile\<close> (lines 264-285). \<open>if extra_snippet\<close> fails for \<open>None\<close> and for the
  empty string.
\<close>

definition render_dockerfile :: "world \<Rightarrow> LanguageConfig \<Rightarrow> string option \<Rightarrow> string" where
  "render_dockerfile w config extra_snippet =
     (let base_image = resolve_base_image w config;
          instructions = [''# Generated by Whanos orchestrator. Do not edit.'',
                          ''FROM '' @ base_image,
                          ''WORKDIR /app''] @ dockerfile_instructions config w;
          instructions' =
            (case extra_snippet of
               None \<Rightarrow> instructions
             | Some snippet \<Rightarrow>
                 if snippet = [] then instructions
                 else instructions @
                      ['''',
                       ''# --- Begin repository-provided customizations ---'',
                       strip snippet,
                       ''# --- End repository-provided customizations ---''])
      in join ''\<newline>'' instructions' @ ''\<newline>'')"

text \<open>\<open>locate_customizations\<close> (lines 288-293): a dict from the two names to a path or \<open>None\<close>.\<close>

definition locate_customizations :: "world \<Rightarrow> (string \<times> path option) list" where
  "locate_customizations w =
     (let overrides = [(''override'', [''whanos'', ''Dockerfile.override'']),
                       (''append'', [''whanos'', ''Dockerfile.append''])]
      in map (\<lambda>(name, path). (name, if path_exists w path then Some path else None)) overrides)"

text \<open>
  Lines 414-424 of \<open>main\<close>: the text written to the temporary descriptor file. A lookup
  in the dict of customizations raises \<open>KeyError\<close> on a name that is not there, and
  \<open>read_text\<close> may raise.
\<close>

definition dockerfile_content :: "world \<Rightarrow> LanguageConfig \<Rightarrow> error + string" where
  "dockerfile_content w config =
     (let customizations = locate_customizations w in
      case map_of customizations ''override'' of
        None \<Rightarrow> Inl KeyError
      | Some dockerfile_override \<Rightarrow>
         (case map_of customizations ''append'' of
            None \<Rightarrow> Inl KeyError
          | Some dockerfile_append \<Rightarrow>
             (case dockerfile_override of
                Some override_path \<Rightarrow> read_text w override_path
              | None \<Rightarrow>
                 (case dockerfile_append of
                    None \<Rightarrow> Inr (render_dockerfile w config None)
                  | Some append_path \<Rightarrow>
                     (case read_text w append_path of
                        Inl e \<Rightarrow> Inl e
                      | Inr append_snippet \<Rightarrow>
                          Inr (render_dockerfile w config (Some append_snippet)))))))"

subsection \<open>Login, build and push\<close>

text \<open>\<open>not x\<close> for an optional string: it holds for \<open>None\<close> and for the empty string.\<close>

definition py_not :: "string option \<Rightarrow> bool" where
  "py_not x = (case x of None \<Rightarrow> True | Some v \<Rightarrow> v = [])"

text \<open>
  \<open>docker_login\<close> (lines 296-328). The password goes to the standard input of the
  command; the call captures the output, so the message carries the captured \<open>stderr\<close>.
\<close>

definition docker_login :: "world \<Rightarrow> string option \<Rightarrow> sys_state \<Rightarrow> (error + unit) \<times> sys_state" where
  "docker_login w registry s =
     (if py_not registry then (Inr (), s)
      else (let username = environ w ''WHANOS_REGISTRY_USERNAME'';
                password = environ w ''WHANOS_REGISTRY_PASSWORD''
            in if py_not username \<or> py_not password then (Inr (), s)
               else (let command = [''docker'', ''login'', the registry, ''-u'', the username,
                                    ''--password-stdin''];
                         s' = s\<lparr>invoked := invoked s @ [(command, password)]\<rparr>
                     in case subprocess_run w command password of
                          NotStarted \<Rightarrow> (Inl OSError, s')
                        | Exited returncode out err \<Rightarrow>
                            if returncode \<noteq> 0
                            then (Inl (OrchestratorError
                                    (''Docker login failed for registry '' @ the registry
                                     @ '': '' @ err)), s')
                            else (Inr (), s'))))"

text \<open>\<open>build_image\<close> (lines 331-351); \<open>repo_root\<close> is the world's.\<close>

definition build_image ::
  "world \<Rightarrow> string \<Rightarrow> string \<Rightarrow> string list \<Rightarrow> sys_state \<Rightarrow> (error + unit) \<times> sys_state" where
  "build_image w dockerfile_path image_ref build_args s =
     (let command = [''docker'', ''build'', ''-f'', dockerfile_path, ''-t'', image_ref]
                    @ concat (map (\<lambda>arg. [''--build-arg'', arg]) build_args)
                    @ [repo_root w]
      in run_command w command s)"

definition push_image :: "world \<Rightarrow> string \<Rightarrow> sys_state \<Rightarrow> (error + unit) \<times> sys_state" where
  "push_image w image_ref s = run_command w [''docker'', ''push'', image_ref] s"

text \<open>
  \<open>extract_registry\<close> (lines 395-401). \<open>split\<close> never returns the empty list, so the
  index \<open>[0]\<close> is its head.
\<close>

definition extract_registry :: "string \<Rightarrow> string option" where
  "extract_registry image_ref =
     (if CHR ''/'' \<notin> set image_ref then None
      else (let registry_candidate = hd (split_on CHR ''/'' image_ref) in
            if CHR ''.'' \<in> set registry_candidate \<or> CHR '':'' \<in> set registry_candidate
            then Some registry_candidate
            else None))"

subsection \<open>Pipeline driver\<close>

text \<open>
  The parsed command line (lines 359-392). \<open>--repo\<close> is the world's \<open>repo_root\<close> once
  resolved; \<open>arg_registry\<close> is \<open>None\<close> when \<open>--registry\<close> is not given.
\<close>

record args =
  arg_image :: string
  arg_skip_tests :: bool
  arg_no_push :: bool
  arg_build_args :: "string list"
  arg_registry :: "string option"

text \<open>Line 433: \<open>args.registry or extract_registry(args.image)\<close>.\<close>

definition effective_registry :: "args \<Rightarrow> string option" where
  "effective_registry a =
     (if py_not (arg_registry a) then extract_registry (arg_image a) else arg_registry a)"

text \<open>The body of the \<open>try\<close> (lines 431-446): a stage that raises ends it.\<close>

definition main_try :: "world \<Rightarrow> args \<Rightarrow> LanguageConfig \<Rightarrow> sys_state \<Rightarrow> (error + unit) \<times> sys_state" where
  "main_try w a config s =
     (case build_test_in_container w config (arg_skip_tests a) s of
        (Inl e, s1) \<Rightarrow> (Inl e, s1)
      | (Inr u1, s1) \<Rightarrow>
         (case docker_login w (effective_registry a) s1 of
            (Inl e, s2) \<Rightarrow> (Inl e, s2)
          | (Inr u2, s2) \<Rightarrow>
             (case build_image w (tmp_name w) (arg_image a) (arg_build_args a) s2 of
                (Inl e, s3) \<Rightarrow> (Inl e, s3)
              | (Inr u3, s3) \<Rightarrow>
                  if \<not> arg_no_push a then push_image w (arg_image a) s3 else (Inr (), s3))))"

text \<open>
  The \<open>finally\<close> (lines 447-451): the file is removed, and an \<open>OSError\<close> of the removal is
  caught and dropped.
\<close>

definition main_finally :: "world \<Rightarrow> sys_state \<Rightarrow> sys_state" where
  "main_finally w s = (if unlink_raises w then s else s\<lparr>tmp_file := None\<rparr>)"

text \<open>
  \<open>main\<close> (lines 404-454). The temporary file is created and written (lines 426-428)
  once the descriptor text is there; the model takes that creation to succeed, and the
  write to store the text as it is (line feeds stay line feeds, as on POSIX). After the
  \<open>finally\<close> the exception of the \<open>try\<close>, if any, goes on to the caller; otherwise \<open>main\<close>
  returns 0.
\<close>

definition main :: "world \<Rightarrow> args \<Rightarrow> sys_state \<Rightarrow> (error + int) \<times> sys_state" where
  "main w a s =
     (if \<not> is_dir w
      then (Inl (OrchestratorError (''Repository path does not exist: '' @ repo_root w)), s)
      else case detect_language w of
             Inl e \<Rightarrow> (Inl e, s)
           | Inr config \<Rightarrow>
              (case dockerfile_content w config of
                 Inl e \<Rightarrow> (Inl e, s)
               | Inr content \<Rightarrow>
                  (let s0 = s\<lparr>tmp_file := Some content\<rparr>;
                       (r, s1) = main_try w a config s0;
                       s2 = main_finally w s1
                   in case r of
                        Inl e \<Rightarrow> (Inl e, s2)
                      | Inr u \<Rightarrow> (Inr 0, s2))))"

subsection \<open>Notions the properties are stated with\<close>

text \<open>
  The marker file of each technology, in the order of the profile table, and the names of
  the technologies whose marker is present in a repository.
\<close>

definition marker_files :: "(string \<times> path) list" where
  "marker_files =
     [(''c'', [''Makefile'']),
      (''java'', [''pom.xml'']),
      (''javascript'', [''package.json'']),
      (''python'', [''requirements.txt'']),
      (''befunge'', [''app'', ''main.bf''])]"

definition matching_technologies :: "world \<Rightarrow> string list" where
  "matching_technologies w =
     map fst (filter (\<lambda>(language, marker). path_exists w marker) marker_files)"

text \<open>
  A descriptor line is a runtime entry point when its first word is \<open>CMD\<close>.
\<close>

definition is_cmd :: "string \<Rightarrow> bool" where
  "is_cmd line = (takeWhile (\<lambda>c. \<not> is_space c) (dropWhile is_space line) = ''CMD'')"

text \<open>
  An external command belongs to the test stage when it is a \<open>docker run\<close>: the test
  stage is the only place of the script that starts one.
\<close>

definition is_test_invocation :: "string list \<times> string option \<Rightarrow> bool" where
  "is_test_invocation c = (take 2 (fst c) = [''docker'', ''run''])"

subsection \<open>Example repositories and command lines\<close>

text \<open>
  \<open>quiet_world\<close> is an empty repository directory with an empty environment, in which
  every external command succeeds. The other examples change it where they say.
\<close>

definition quiet_world :: world where
  "quiet_world =
     \<lparr>environ = (\<lambda>k. None), repo_root = ''/srv/repo'', is_dir = True,
      exists = (\<lambda>p. False), is_symlink = (\<lambda>p. False),
      file_content = (\<lambda>p. Inl FileNotFoundError), json_loads = (\<lambda>t. None),
      subprocess_run = (\<lambda>argv input. Exited 0 [] []),
      tmp_name = ''/tmp/tmpk3x9.Dockerfile'', unlink_raises = False\<rparr>"

definition with_files :: "(path \<times> string) list \<Rightarrow> world \<Rightarrow> world" where
  "with_files files w =
     w\<lparr>exists := (\<lambda>p. p \<in> set (map fst files)),
       file_content :=
         (\<lambda>p. case map_of files p of None \<Rightarrow> Inl FileNotFoundError | Some t \<Rightarrow> Inr t)\<rparr>"

definition with_env :: "(string \<times> string) list \<Rightarrow> world \<Rightarrow> world" where
  "with_env vars w = w\<lparr>environ := map_of vars\<rparr>"

definition repo_c :: world where
  "repo_c = with_files [([''Makefile''], ''all:'')] quiet_world"

definition repo_java_python :: world where
  "repo_java_python =
     with_files [([''pom.xml''], ''<project/>''), ([''requirements.txt''], ''flask'')] quiet_world"

definition world_empty_base_env :: world where
  "world_empty_base_env = with_env [(''WHANOS_BASE_IMAGE_C'', '''')] repo_c"

definition args_registry_host :: args where
  "args_registry_host =
     \<lparr>arg_image = ''registry.example.com/org/app:1.0'', arg_skip_tests = False,
      arg_no_push = False, arg_build_args = [], arg_registry = None\<rparr>"

definition args_library :: args where
  "args_library =
     \<lparr>arg_image = ''library/app'', arg_skip_tests = False,
      arg_no_push = False, arg_build_args = [], arg_registry = None\<rparr>"

definition fresh_state :: sys_state where
  "fresh_state = \<lparr>invoked = [], tmp_file = None\<rparr>"

definition repo_override :: world where
  "repo_override =
     with_env [(''WHANOS_BASE_IMAGE_C'', ''alpine:3'')]
       (with_files [([''Makefile''], ''all:''),
                    ([''whanos'', ''Dockerfile.override''], ''FROM scratch\<newline>COPY app /app\<newline>''),
                    ([''whanos'', ''Dockerfile.append''], ''RUN true'')] quiet_world)"

definition repo_c_append :: world where
  "repo_c_append =
     with_files [([''Makefile''], ''all:''),
                 ([''whanos'', ''Dockerfile.append''], ''  RUN apk add curl'')] quiet_world"

definition descriptor_c_append :: string where
  \<open>descriptor_c_append =
     ''# Generated by Whanos orchestrator. Do not edit.\<newline>FROM whanos-c:latest\<newline>WORKDIR /app\<newline>COPY . .\<newline>RUN make\<newline>CMD ["./compiled-app"]\<newline>\<newline># --- Begin repository-provided customizations ---\<newline>RUN apk add curl\<newline># --- End repository-provided customizations ---\<newline>''\<close>

definition world_other_machine :: world where
  "world_other_machine =
     repo_c_append\<lparr>repo_root := ''/home/ci/checkout'', json_loads := (\<lambda>t. Some JNull),
        subprocess_run := (\<lambda>argv input. NotStarted),
        tmp_name := ''/var/tmp/tmpzz01.Dockerfile'', unlink_raises := True\<rparr>"

definition repo_java :: world where
  "repo_java = with_files [([''pom.xml''], ''<project/>'')] quiet_world"

definition args_plain :: args where
  "args_plain =
     \<lparr>arg_image = ''library/app'', arg_skip_tests = False,
      arg_no_push = False, arg_build_args = [], arg_registry = None\<rparr>"

definition args_skip_tests :: args where
  "args_skip_tests = args_plain\<lparr>arg_skip_tests := True\<rparr>"

definition world_build_fails :: world where
  "world_build_fails =
     repo_c\<lparr>subprocess_run :=
               (\<lambda>argv input. if take 2 argv = [''docker'', ''build'']
                              then Exited 1 [] [] else Exited 0 [] [])\<rparr>"

definition world_unlink_fails :: world where
  "world_unlink_fails = repo_c\<lparr>unlink_raises := True\<rparr>"

definition manifest_with_test :: string where
  \<open>manifest_with_test = ''{"scripts": {"test": "jest"}}''\<close>

definition repo_js :: world where
  "repo_js =
     (with_files [([''package.json''], manifest_with_test)] quiet_world)
       \<lparr>json_loads := (\<lambda>t. if t = manifest_with_test
                             then Some (JObj [(''scripts'', JObj [(''test'', JStr ''jest'')])])
                             else None)\<rparr>"

definition repo_js_broken :: world where
  "repo_js_broken = with_files [([''package.json''], ''{'')] quiet_world"

definition repo_js_unreadable :: world where
  "repo_js_unreadable =
     quiet_world\<lparr>exists := (\<lambda>p. p = [''package.json'']),
                  file_content := (\<lambda>p. if p = [''package.json''] then Inl PermissionError
                                         else Inl FileNotFoundError)\<rparr>"

definition override_crlf :: string where
  "override_crlf =
     ''FROM scratch'' @ [CHR 0x0D, CHR 0x0A] @ ''COPY app /app'' @ [CHR 0x0D, CHR 0x0A]"

definition repo_override_crlf :: world where
  "repo_override_crlf =
     with_files [([''Makefile''], ''all:''),
                 ([''whanos'', ''Dockerfile.override''], override_crlf)] quiet_world"

subsection \<open>Auxiliary facts\<close>

lemmas fixture_defs = quiet_world_def with_files_def with_env_def path_exists_def
  read_text_def

lemma read_text_unlink [simp]: "read_text (w\<lparr>unlink_raises := b\<rparr>) = read_text w"
  by (simp add: read_text_def fun_eq_iff)

lemma read_text_agree: "file_content w1 = file_content w2 \<Longrightarrow> read_text w1 = read_text w2"
  by (simp add: read_text_def fun_eq_iff)

lemma universal_newlines_no_cr: "CHR 0x0D \<notin> set (universal_newlines s)"
  by (induction s rule: universal_newlines.induct) auto

lemma universal_newlines_keeps_rest:
  "filter (\<lambda>c. c \<noteq> CHR 0x0D \<and> c \<noteq> CHR 0x0A) (universal_newlines s)
     = filter (\<lambda>c. c \<noteq> CHR 0x0D \<and> c \<noteq> CHR 0x0A) s"
  by (induction s rule: universal_newlines.induct) auto

lemma universal_newlines_id: "CHR 0x0D \<notin> set s \<Longrightarrow> universal_newlines s = s"
  by (induction s rule: universal_newlines.induct) auto

lemma split_on_not_Nil: "split_on sep s \<noteq> []"
  by (induction s) (auto split: list.splits)

lemma hd_split_on: "hd (split_on sep s) = takeWhile (\<lambda>c. c \<noteq> sep) s"
  by (induction s) (auto split: list.splits simp: split_on_not_Nil)

lemma extract_registry_eq:
  "extract_registry image_ref =
     (let seg = takeWhile (\<lambda>c. c \<noteq> CHR ''/'') image_ref in
      if CHR ''/'' \<in> set image_ref \<and> (CHR ''.'' \<in> set seg \<or> CHR '':'' \<in> set seg)
      then Some seg else None)"
  by (simp add: extract_registry_def hd_split_on Let_def)

lemma matches_eq:
  "map fst (filter (\<lambda>(language, config). detector config w) LANGUAGE_CONFIGS) = matching_technologies w"
  by (simp add: LANGUAGE_CONFIGS_def matching_technologies_def marker_files_def
      detect_c_def detect_java_def detect_javascript_def detect_python_def detect_befunge_def)

lemma join_occurs: "x \<in> set xs \<Longrightarrow> \<exists>pre post. join sep xs = pre @ x @ post"
proof (induction sep xs rule: join.induct)
  case (1 sep)
  then show ?case by simp
next
  case (2 sep y)
  then have "join sep [y] = [] @ x @ []" by simp
  then show ?case by blast
next
  case (3 sep y z zs)
  show ?case
  proof (cases "x = y")
    case True
    then have "join sep (y # z # zs) = [] @ x @ (sep @ join sep (z # zs))" by simp
    then show ?thesis by blast
  next
    case False
    with 3 obtain pre post where "join sep (z # zs) = pre @ x @ post" by auto
    then have "join sep (y # z # zs) = (y @ sep @ pre) @ x @ post" by simp
    then show ?thesis by blast
  qed
qed









lemma dockerfile_content_override:
  "path_exists w [''whanos'', ''Dockerfile.override''] \<Longrightarrow>
   dockerfile_content w config = read_text w [''whanos'', ''Dockerfile.override'']"
  by (simp add: dockerfile_content_def locate_customizations_def)


lemma dockerfile_content_plain:
  "\<not> path_exists w [''whanos'', ''Dockerfile.override''] \<Longrightarrow>
   \<not> path_exists w [''whanos'', ''Dockerfile.append''] \<Longrightarrow>
   dockerfile_content w config = Inr (render_dockerfile w config None)"
  by (simp add: dockerfile_content_def locate_customizations_def)

lemmas eval_defs = dockerfile_content_def locate_customizations_def render_dockerfile_def
  resolve_base_image_def LANGUAGE_CONFIGS_def docker_steps_c_def strip_def is_space_def

lemma run_command_tmp_file [simp]: "tmp_file (snd (run_command w c s)) = tmp_file s"
  by (simp add: run_command_def Let_def split: proc_outcome.splits)

lemma run_command_invoked [simp]:
  "invoked (snd (run_command w c s)) = invoked s @ [(c, None)]"
  by (simp add: run_command_def Let_def split: proc_outcome.splits)

lemma build_test_tmp_file [simp]:
  "tmp_file (snd (build_test_in_container w config skip s)) = tmp_file s"
  by (simp add: build_test_in_container_def Let_def split: sum.splits option.splits)

lemma docker_login_tmp_file [simp]: "tmp_file (snd (docker_login w r s)) = tmp_file s"
  by (simp add: docker_login_def Let_def split: proc_outcome.splits)

lemma build_image_tmp_file [simp]: "tmp_file (snd (build_image w p i b s)) = tmp_file s"
  by (simp add: build_image_def Let_def)

lemma push_image_tmp_file [simp]: "tmp_file (snd (push_image w i s)) = tmp_file s"
  by (simp add: push_image_def)

lemma main_try_tmp_file: "tmp_file (snd (main_try w a config s)) = tmp_file s"
proof -
  obtain r1 s1 where t: "build_test_in_container w config (arg_skip_tests a) s = (r1, s1)"
    by (cases "build_test_in_container w config (arg_skip_tests a) s")
  obtain r2 s2 where l: "docker_login w (effective_registry a) s1 = (r2, s2)"
    by (cases "docker_login w (effective_registry a) s1")
  obtain r3 s3 where b: "build_image w (tmp_name w) (arg_image a) (arg_build_args a) s2 = (r3, s3)"
    by (cases "build_image w (tmp_name w) (arg_image a) (arg_build_args a) s2")
  have 1: "tmp_file s1 = tmp_file s" using build_test_tmp_file[of w config "arg_skip_tests a" s] t by simp
  have 2: "tmp_file s2 = tmp_file s1" using docker_login_tmp_file[of w "effective_registry a" s1] l by simp
  have 3: "tmp_file s3 = tmp_file s2"
    using build_image_tmp_file[of w "tmp_name w" "arg_image a" "arg_build_args a" s2] b by simp
  show ?thesis
    using t l b 1 2 3 by (simp add: main_try_def split: sum.splits)
qed

lemma main_ready:
  assumes "is_dir w" "detect_language w = Inr config" "dockerfile_content w config = Inr content"
  shows "main w a s =
           ((case fst (main_try w a config (s\<lparr>tmp_file := Some content\<rparr>)) of
               Inl e \<Rightarrow> Inl e | Inr u \<Rightarrow> Inr 0),
            main_finally w (snd (main_try w a config (s\<lparr>tmp_file := Some content\<rparr>))))"
  using assms by (simp add: main_def Let_def split: prod.splits sum.splits)

lemma registry_instructions_agree:
  assumes "(language, config) \<in> set LANGUAGE_CONFIGS"
    and "exists w1 = exists w2" "is_symlink w1 = is_symlink w2"
  shows "dockerfile_instructions config w1 = dockerfile_instructions config w2"
  using assms unfolding LANGUAGE_CONFIGS_def
  by (auto simp: docker_steps_c_def docker_steps_java_def docker_steps_javascript_def
      docker_steps_python_def docker_steps_befunge_def path_exists_def)

lemmas run_defs = main_def main_try_def main_finally_def build_test_in_container_def
  docker_login_def build_image_def push_image_def run_command_def effective_registry_def
  extract_registry_def py_not_def detect_language_def detect_c_def detect_java_def
  detect_javascript_def detect_python_def detect_befunge_def test_command_none_def
  test_command_java_def docker_steps_java_def docker_steps_javascript_def

lemmas str_defs = str_int_def str_nat.simps

lemma docker_login_invoked:
  "filter is_test_invocation (invoked (snd (docker_login w r s)))
     = filter is_test_invocation (invoked s)"
  by (simp add: docker_login_def Let_def is_test_invocation_def split: proc_outcome.splits)

lemma build_image_invoked:
  "filter is_test_invocation (invoked (snd (build_image w p i b s)))
     = filter is_test_invocation (invoked s)"
  by (simp add: build_image_def Let_def is_test_invocation_def)

lemma push_image_invoked:
  "filter is_test_invocation (invoked (snd (push_image w i s)))
     = filter is_test_invocation (invoked s)"
  by (simp add: push_image_def is_test_invocation_def)

lemma build_test_skipped: "build_test_in_container w config True s = (Inr (), s)"
  by (simp add: build_test_in_container_def)

lemma main_try_skip_invoked:
  assumes "arg_skip_tests a"
  shows "filter is_test_invocation (invoked (snd (main_try w a config s)))
           = filter is_test_invocation (invoked s)"
proof -
  obtain r2 s2 where l: "docker_login w (effective_registry a) s = (r2, s2)"
    by (cases "docker_login w (effective_registry a) s")
  obtain r3 s3 where b: "build_image w (tmp_name w) (arg_image a) (arg_build_args a) s2 = (r3, s3)"
    by (cases "build_image w (tmp_name w) (arg_image a) (arg_build_args a) s2")
  obtain r4 s4 where p: "push_image w (arg_image a) s3 = (r4, s4)"
    by (cases "push_image w (arg_image a) s3")
  have 2: "filter is_test_invocation (invoked s2) = filter is_test_invocation (invoked s)"
    using docker_login_invoked[of w "effective_registry a" s] l by simp
  have 3: "filter is_test_invocation (invoked s3) = filter is_test_invocation (invoked s2)"
    using build_image_invoked[of w "tmp_name w" "arg_image a" "arg_build_args a" s2] b by simp
  have 4: "filter is_test_invocation (invoked s4) = filter is_test_invocation (invoked s3)"
    using push_image_invoked[of w "arg_image a" s3] p by simp
  show ?thesis
    using assms l b p 2 3 4
    by (simp add: main_try_def build_test_skipped split: sum.splits)
qed

lemma main_finally_invoked [simp]: "invoked (main_finally w s) = invoked s"
  by (simp add: main_finally_def)

lemma main_skip_invoked:
  assumes "arg_skip_tests a"
  shows "filter is_test_invocation (invoked (snd (main w a s)))
           = filter is_test_invocation (invoked s)"
proof (cases "is_dir w")
  case False
  then show ?thesis by (simp add: main_def)
next
  case True
  show ?thesis
  proof (cases "detect_language w")
    case (Inl e)
    with True show ?thesis by (simp add: main_def)
  next
    case (Inr config)
    show ?thesis
    proof (cases "dockerfile_content w config")
      case (Inl e)
      with True Inr show ?thesis by (simp add: main_def)
    next
      case c: (Inr content)
      have "invoked (snd (main w a s))
              = invoked (snd (main_try w a config (s\<lparr>tmp_file := Some content\<rparr>)))"
        using True Inr c by (simp add: main_ready)
      then show ?thesis
        using main_try_skip_invoked[OF assms, of w config "s\<lparr>tmp_file := Some content\<rparr>"]
        by simp
    qed
  qed
qed

lemma detect_language_in_table:
  assumes "detect_language w = Inr config"
  shows "\<exists>language. (language, config) \<in> set LANGUAGE_CONFIGS"
proof -
  define ms where "ms = filter (\<lambda>(language, config). detector config w) LANGUAGE_CONFIGS"
  from assms have ne: "ms \<noteq> []" and c: "config = snd (ms ! 0)"
    by (auto simp: detect_language_def ms_def[symmetric] Let_def split: if_splits)
  from ne have "ms ! 0 \<in> set ms" by simp
  then have "ms ! 0 \<in> set LANGUAGE_CONFIGS" by (simp add: ms_def)
  with c have "(fst (ms ! 0), config) \<in> set LANGUAGE_CONFIGS" by simp
  then show ?thesis by blast
qed

lemma detect_language_unlink [simp]:
  "detect_language (w\<lparr>unlink_raises := b\<rparr>) = detect_language w"
  by (simp add: detect_language_def LANGUAGE_CONFIGS_def detect_c_def detect_java_def
      detect_javascript_def detect_python_def detect_befunge_def path_exists_def)

lemma dockerfile_content_agree:
  assumes "(language, config) \<in> set LANGUAGE_CONFIGS"
    and "environ w1 = environ w2"
    and "exists w1 = exists w2"
    and "is_symlink w1 = is_symlink w2"
    and "read_text w1 = read_text w2"
  shows "render_dockerfile w1 config snippet = render_dockerfile w2 config snippet"
    and "dockerfile_content w1 config = dockerfile_content w2 config"
proof -
  have i: "dockerfile_instructions config w1 = dockerfile_instructions config w2"
    using assms(1,3,4) by (rule registry_instructions_agree)
  have b: "resolve_base_image w1 config = resolve_base_image w2 config"
    using assms(2) by (simp add: resolve_base_image_def)
  show r: "render_dockerfile w1 config x = render_dockerfile w2 config x" for x
    using i b by (simp add: render_dockerfile_def)
  have p: "path_exists w1 = path_exists w2"
    using assms(3,4) by (simp add: path_exists_def fun_eq_iff)
  show "dockerfile_content w1 config = dockerfile_content w2 config"
    using r p assms(5)
    by (simp add: dockerfile_content_def locate_customizations_def split: sum.splits)
qed

lemma registry_test_command_unlink:
  assumes "(language, config) \<in> set LANGUAGE_CONFIGS"
  shows "test_command config (w\<lparr>unlink_raises := b\<rparr>) = test_command config w"
  using assms unfolding LANGUAGE_CONFIGS_def
  by (auto simp: test_command_none_def test_command_java_def test_command_javascript_def
      test_command_python_def path_exists_def split: sum.splits option.splits)

lemma run_command_unlink [simp]:
  "run_command (w\<lparr>unlink_raises := b\<rparr>) c s = run_command w c s"
  by (simp add: run_command_def)

lemma build_test_unlink:
  assumes "(language, config) \<in> set LANGUAGE_CONFIGS"
  shows "build_test_in_container (w\<lparr>unlink_raises := b\<rparr>) config k s
           = build_test_in_container w config k s"
  using registry_test_command_unlink[OF assms, where w=w and b=b]
  by (simp add: build_test_in_container_def resolve_base_image_def
      split: sum.splits option.splits)

lemma docker_login_unlink [simp]:
  "docker_login (w\<lparr>unlink_raises := b\<rparr>) r s = docker_login w r s"
  by (simp add: docker_login_def Let_def split: proc_outcome.splits)

lemma build_image_unlink [simp]:
  "build_image (w\<lparr>unlink_raises := b\<rparr>) p i ba s = build_image w p i ba s"
  by (simp add: build_image_def)

lemma push_image_unlink [simp]:
  "push_image (w\<lparr>unlink_raises := b\<rparr>) i s = push_image w i s"
  by (simp add: push_image_def)

lemma main_try_unlink:
  assumes "(language, config) \<in> set LANGUAGE_CONFIGS"
  shows "main_try (w\<lparr>unlink_raises := b\<rparr>) a config s = main_try w a config s"
  using build_test_unlink[OF assms, where w=w and b=b]
  by (simp add: main_try_def split: prod.splits sum.splits)

lemma build_test_no_command:
  "test_command config w = Inr None \<Longrightarrow> build_test_in_container w config False s = (Inr (), s)"
  by (simp add: build_test_in_container_def)

lemma build_test_raises:
  "test_command config w = Inl e \<Longrightarrow> build_test_in_container w config False s = (Inl e, s)"
  by (simp add: build_test_in_container_def)

lemma javascript_profile:
  "(''javascript'', config) \<in> set LANGUAGE_CONFIGS \<Longrightarrow> test_command config = test_command_javascript"
  by (auto simp: LANGUAGE_CONFIGS_def)

section \<open>Properties\<close>

subsection \<open>C1: technology detection\<close>

text \<open>
  C1. For every repository, \<open>detect_language\<close> returns the profile of the one technology
  whose marker file is present when exactly one of the five markers (Makefile, pom.xml,
  package.json, requirements.txt, app/main.bf) is present. When none is present it
  raises the error whose message lists the five markers. When two or more are present it
  raises the error whose message is built from the names of all matching technologies,
  joined by commas, so every matching name occurs in it.
\<close>

theorem C1_detect_language:
  "(matching_technologies w = [] \<longrightarrow>
      detect_language w = Inl (OrchestratorError
        ''Unable to detect repository language. Make sure the repo contains exactly one of: Makefile, pom.xml, package.json, requirements.txt, app/main.bf.''))
   \<and> (\<forall>l. matching_technologies w = [l] \<longrightarrow>
         (\<exists>config. detect_language w = Inr config \<and> map_of LANGUAGE_CONFIGS l = Some config
                   \<and> name config = l \<and> detector config w))
   \<and> (2 \<le> length (matching_technologies w) \<longrightarrow>
         (\<exists>msg. detect_language w = Inl (OrchestratorError msg)
              \<and> msg = ''Repository matches multiple language detectors: ''
                      @ join '', '' (matching_technologies w)
                      @ ''. Ensure it only meets one language criterion.''
              \<and> (\<forall>l \<in> set (matching_technologies w). \<exists>pre post. msg = pre @ l @ post)))"
proof (intro conjI allI impI)
  assume "matching_technologies w = []"
  then show "detect_language w = Inl (OrchestratorError
        ''Unable to detect repository language. Make sure the repo contains exactly one of: Makefile, pom.xml, package.json, requirements.txt, app/main.bf.'')"
    using matches_eq[of w] by (simp add: detect_language_def)
next
  fix l assume one: "matching_technologies w = [l]"
  define ms where "ms = filter (\<lambda>(language, config). detector config w) LANGUAGE_CONFIGS"
  have len: "map fst ms = [l]" using matches_eq[of w] one by (simp add: ms_def)
  then obtain c where ms: "ms = [(l, c)]" by (cases ms) auto
  have mem: "(l, c) \<in> set ms" by (simp add: ms)
  then have in_cfg: "(l, c) \<in> set LANGUAGE_CONFIGS" and det: "detector c w"
    by (auto simp: ms_def)
  have "distinct (map fst LANGUAGE_CONFIGS)" by (simp add: LANGUAGE_CONFIGS_def)
  with in_cfg have look: "map_of LANGUAGE_CONFIGS l = Some c" by simp
  have nm: "name c = l" using in_cfg by (auto simp: LANGUAGE_CONFIGS_def)
  have "detect_language w = Inr c"
    using ms by (simp add: detect_language_def ms_def[symmetric])
  with look nm det
  show "\<exists>config. detect_language w = Inr config \<and> map_of LANGUAGE_CONFIGS l = Some config
                   \<and> name config = l \<and> detector config w" by blast
next
  assume two: "2 \<le> length (matching_technologies w)"
  define ms where "ms = filter (\<lambda>(language, config). detector config w) LANGUAGE_CONFIGS"
  have names: "map fst ms = matching_technologies w" using matches_eq[of w] by (simp add: ms_def)
  then have "length ms = length (matching_technologies w)" by (metis length_map)
  with two have big: "1 < length ms" "ms \<noteq> []" by auto
  let ?msg = "''Repository matches multiple language detectors: ''
                      @ join '', '' (matching_technologies w)
                      @ ''. Ensure it only meets one language criterion.''"
  have d: "detect_language w = Inl (OrchestratorError ?msg)"
    using big names by (simp add: detect_language_def ms_def[symmetric])
  have "\<exists>pre post. ?msg = pre @ l @ post" if "l \<in> set (matching_technologies w)" for l
  proof -
    from join_occurs[OF that, of "'', ''"] obtain pre post
      where "join '', '' (matching_technologies w) = pre @ l @ post" by blast
    then have "?msg = (''Repository matches multiple language detectors: '' @ pre) @ l
                 @ (post @ ''. Ensure it only meets one language criterion.'')" by simp
    then show ?thesis by blast
  qed
  with d show "\<exists>msg. detect_language w = Inl (OrchestratorError msg)
              \<and> msg = ?msg
              \<and> (\<forall>l \<in> set (matching_technologies w). \<exists>pre post. msg = pre @ l @ post)"
    by blast
qed

theorem C1_detect_language_witness:
  "detect_language repo_c = Inr (snd (LANGUAGE_CONFIGS ! 0))
   \<and> detect_language quiet_world = Inl (OrchestratorError
        ''Unable to detect repository language. Make sure the repo contains exactly one of: Makefile, pom.xml, package.json, requirements.txt, app/main.bf.'')
   \<and> detect_language repo_java_python = Inl (OrchestratorError
        ''Repository matches multiple language detectors: java, python. Ensure it only meets one language criterion.'')"
proof -
  have one: "matching_technologies repo_c = [''c'']"
    by (simp add: matching_technologies_def marker_files_def repo_c_def fixture_defs)
  have zero: "matching_technologies quiet_world = []"
    by (simp add: matching_technologies_def marker_files_def fixture_defs)
  have two: "matching_technologies repo_java_python = [''java'', ''python'']"
    by (simp add: matching_technologies_def marker_files_def repo_java_python_def fixture_defs)
  have c: "map_of LANGUAGE_CONFIGS ''c'' = Some (snd (LANGUAGE_CONFIGS ! 0))"
    by (simp add: LANGUAGE_CONFIGS_def)
  show ?thesis
    using C1_detect_language[of repo_c] C1_detect_language[of quiet_world]
      C1_detect_language[of repo_java_python] one zero two c
    by auto
qed

subsection \<open>C2: base image\<close>

text \<open>
  C2, as amended. For every profile, \<open>resolve_base_image\<close> returns the value of the
  profile's base-image environment variable whenever the variable is set, also when it is
  set to the empty string, and the profile's default base image exactly when the variable
  is not set.
\<close>

theorem C2_resolve_base_image_set_or_unset:
  "(\<forall>v. environ w (base_image_env config) = Some v \<longrightarrow> resolve_base_image w config = v)
   \<and> (environ w (base_image_env config) = None \<longrightarrow>
        resolve_base_image w config = default_base_image config)"
  by (simp add: resolve_base_image_def)

theorem C2_resolve_base_image_witness:
  "environ world_empty_base_env (base_image_env (snd (LANGUAGE_CONFIGS ! 0))) = Some ''''
   \<and> resolve_base_image world_empty_base_env (snd (LANGUAGE_CONFIGS ! 0)) = ''''
   \<and> environ quiet_world (base_image_env (snd (LANGUAGE_CONFIGS ! 0))) = None
   \<and> resolve_base_image quiet_world (snd (LANGUAGE_CONFIGS ! 0)) = ''whanos-c:latest''"
proof -
  have h1: "environ world_empty_base_env (base_image_env (snd (LANGUAGE_CONFIGS ! 0))) = Some ''''"
    by (simp add: world_empty_base_env_def with_env_def LANGUAGE_CONFIGS_def)
  have h2: "environ quiet_world (base_image_env (snd (LANGUAGE_CONFIGS ! 0))) = None"
    by (simp add: quiet_world_def)
  have d: "default_base_image (snd (LANGUAGE_CONFIGS ! 0)) = ''whanos-c:latest''"
    by (simp add: LANGUAGE_CONFIGS_def)
  from C2_resolve_base_image_set_or_unset[of world_empty_base_env "snd (LANGUAGE_CONFIGS ! 0)"]
       C2_resolve_base_image_set_or_unset[of quiet_world "snd (LANGUAGE_CONFIGS ! 0)"] h1 h2 d
  show ?thesis by simp
qed

text \<open>
  The claim as first stated asks for the default when the variable is set to the empty
  string. With \<open>WHANOS_BASE_IMAGE_C\<close> set to the empty string the result is the empty
  string, not \<open>whanos-c:latest\<close>.
\<close>

theorem C2_empty_override_counterexample:
  "environ world_empty_base_env (base_image_env (snd (LANGUAGE_CONFIGS ! 0))) = Some ''''
   \<and> resolve_base_image world_empty_base_env (snd (LANGUAGE_CONFIGS ! 0)) = ''''
   \<and> resolve_base_image world_empty_base_env (snd (LANGUAGE_CONFIGS ! 0))
       \<noteq> default_base_image (snd (LANGUAGE_CONFIGS ! 0))"
  by (simp add: resolve_base_image_def world_empty_base_env_def with_env_def LANGUAGE_CONFIGS_def)

subsection \<open>C3: override\<close>

text \<open>
  C3, as amended. For every repository that has \<open>whanos/Dockerfile.override\<close>, the
  descriptor is the content of that file as a text-mode read gives it: every carriage
  return followed by a line feed, and every other carriage return, is one line feed, and
  all other characters are kept, in order. When the file holds no carriage return the
  descriptor is its raw content verbatim. This holds whatever the profile, the
  environment and the append file are: two repositories with the same override content
  get the same descriptor under any two profiles. When the run reaches the pipeline
  stages, the temporary descriptor file holds that text from before the first stage
  until the cleanup, so the image build reads it.
\<close>

theorem C3_override_text_mode:
  assumes "path_exists w [''whanos'', ''Dockerfile.override'']"
  shows "dockerfile_content w config =
           (case file_content w [''whanos'', ''Dockerfile.override''] of
              Inl e \<Rightarrow> Inl e
            | Inr raw \<Rightarrow> Inr (universal_newlines raw))
       \<and> (\<forall>raw. file_content w [''whanos'', ''Dockerfile.override''] = Inr raw \<longrightarrow>
             (\<exists>content. dockerfile_content w config = Inr content
                 \<and> CHR 0x0D \<notin> set content
                 \<and> filter (\<lambda>c. c \<noteq> CHR 0x0D \<and> c \<noteq> CHR 0x0A) content
                     = filter (\<lambda>c. c \<noteq> CHR 0x0D \<and> c \<noteq> CHR 0x0A) raw
                 \<and> (CHR 0x0D \<notin> set raw \<longrightarrow> content = raw)))
       \<and> (\<forall>w' config'.
             path_exists w' [''whanos'', ''Dockerfile.override'']
             \<and> file_content w' [''whanos'', ''Dockerfile.override'']
                 = file_content w [''whanos'', ''Dockerfile.override'']
             \<longrightarrow> dockerfile_content w' config' = dockerfile_content w config)
       \<and> (\<forall>content. is_dir w \<and> detect_language w = Inr config
                  \<and> read_text w [''whanos'', ''Dockerfile.override''] = Inr content
             \<longrightarrow> (\<exists>r s1. main_try w a config (s\<lparr>tmp_file := Some content\<rparr>) = (r, s1)
                        \<and> tmp_file s1 = Some content
                        \<and> main w a s = ((case r of Inl e \<Rightarrow> Inl e | Inr u \<Rightarrow> Inr 0),
                                        main_finally w s1)))"
proof (intro conjI allI impI)
  show c: "dockerfile_content w config =
           (case file_content w [''whanos'', ''Dockerfile.override''] of
              Inl e \<Rightarrow> Inl e
            | Inr raw \<Rightarrow> Inr (universal_newlines raw))"
    using assms by (simp add: dockerfile_content_override read_text_def)
  {
    fix raw
    assume r: "file_content w [''whanos'', ''Dockerfile.override''] = Inr raw"
    have 1: "dockerfile_content w config = Inr (universal_newlines raw)"
      using c r by simp
    have 2: "CHR 0x0D \<notin> set (universal_newlines raw)"
      by (rule universal_newlines_no_cr)
    have 3: "filter (\<lambda>c. c \<noteq> CHR 0x0D \<and> c \<noteq> CHR 0x0A) (universal_newlines raw)
               = filter (\<lambda>c. c \<noteq> CHR 0x0D \<and> c \<noteq> CHR 0x0A) raw"
      by (rule universal_newlines_keeps_rest)
    have 4: "CHR 0x0D \<notin> set raw \<longrightarrow> universal_newlines raw = raw"
      by (simp add: universal_newlines_id)
    from 1 2 3 4
    show "\<exists>content. dockerfile_content w config = Inr content
                 \<and> CHR 0x0D \<notin> set content
                 \<and> filter (\<lambda>c. c \<noteq> CHR 0x0D \<and> c \<noteq> CHR 0x0A) content
                     = filter (\<lambda>c. c \<noteq> CHR 0x0D \<and> c \<noteq> CHR 0x0A) raw
                 \<and> (CHR 0x0D \<notin> set raw \<longrightarrow> content = raw)"
      by blast
  }
  {
    fix w' config'
    assume "path_exists w' [''whanos'', ''Dockerfile.override'']
             \<and> file_content w' [''whanos'', ''Dockerfile.override'']
                 = file_content w [''whanos'', ''Dockerfile.override'']"
    then show "dockerfile_content w' config' = dockerfile_content w config"
      using assms by (simp add: dockerfile_content_override read_text_def)
  }
  {
    fix content
    assume h: "is_dir w \<and> detect_language w = Inr config
                  \<and> read_text w [''whanos'', ''Dockerfile.override''] = Inr content"
    then have dc: "dockerfile_content w config = Inr content"
      using assms by (simp add: dockerfile_content_override)
    let ?p = "main_try w a config (s\<lparr>tmp_file := Some content\<rparr>)"
    have "?p = (fst ?p, snd ?p)" by simp
    moreover have "tmp_file (snd ?p) = Some content" by (simp add: main_try_tmp_file)
    moreover have "main w a s = ((case fst ?p of Inl e \<Rightarrow> Inl e | Inr u \<Rightarrow> Inr 0),
                                        main_finally w (snd ?p))"
      using h dc by (simp add: main_ready)
    ultimately show "\<exists>r s1. ?p = (r, s1) \<and> tmp_file s1 = Some content
                        \<and> main w a s = ((case r of Inl e \<Rightarrow> Inl e | Inr u \<Rightarrow> Inr 0),
                                        main_finally w s1)"
      by blast
  }
qed

theorem C3_override_text_mode_witness:
  "path_exists repo_override [''whanos'', ''Dockerfile.override'']
   \<and> path_exists repo_override [''whanos'', ''Dockerfile.append'']
   \<and> file_content repo_override [''whanos'', ''Dockerfile.override'']
       = Inr ''FROM scratch\<newline>COPY app /app\<newline>''
   \<and> dockerfile_content repo_override (snd (LANGUAGE_CONFIGS ! 0))
       = Inr ''FROM scratch\<newline>COPY app /app\<newline>''"
proof -
  have h: "path_exists repo_override [''whanos'', ''Dockerfile.override'']"
    by (simp add: repo_override_def fixture_defs)
  have a: "path_exists repo_override [''whanos'', ''Dockerfile.append'']"
    by (simp add: repo_override_def fixture_defs)
  have r: "file_content repo_override [''whanos'', ''Dockerfile.override'']
             = Inr ''FROM scratch\<newline>COPY app /app\<newline>''"
    by (simp add: repo_override_def fixture_defs)
  note t = C3_override_text_mode[OF h, where config = "snd (LANGUAGE_CONFIGS ! 0)"]
  from t[THEN conjunct1] r
  have "dockerfile_content repo_override (snd (LANGUAGE_CONFIGS ! 0))
          = Inr ''FROM scratch\<newline>COPY app /app\<newline>''"
    by simp
  with h a r show ?thesis by simp
qed

text \<open>
  The claim as first stated has the descriptor equal to the raw content of the override
  file. An override stored with carriage return and line feed at the end of each line
  reaches the build with line feeds only.
\<close>

theorem C3_crlf_override_counterexample:
  "path_exists repo_override_crlf [''whanos'', ''Dockerfile.override'']
   \<and> file_content repo_override_crlf [''whanos'', ''Dockerfile.override''] = Inr override_crlf
   \<and> dockerfile_content repo_override_crlf (snd (LANGUAGE_CONFIGS ! 0))
       = Inr ''FROM scratch\<newline>COPY app /app\<newline>''
   \<and> dockerfile_content repo_override_crlf (snd (LANGUAGE_CONFIGS ! 0)) \<noteq> Inr override_crlf"
  by (simp add: repo_override_crlf_def override_crlf_def fixture_defs
      dockerfile_content_def locate_customizations_def)

subsection \<open>C4: append\<close>




subsection \<open>C5: cleanup of the temporary descriptor file\<close>

text \<open>
  C5, as amended. For every run in which the temporary descriptor file was created, the
  file does not exist after the run when its removal raises no filesystem error, whether
  the stages ended in success or one of them (test, login, build, push) raised. In every
  case the result of the run is the result of the stages: the error a stage raised, or 0;
  a filesystem error of the removal is dropped and changes nothing of that result.
\<close>

theorem C5_cleanup_best_effort:
  assumes "is_dir w"
    and "detect_language w = Inr config"
    and "dockerfile_content w config = Inr content"
  shows "(\<not> unlink_raises w \<longrightarrow> tmp_file (snd (main w a s)) = None)
       \<and> fst (main w a s) =
           (case fst (main_try w a config (s\<lparr>tmp_file := Some content\<rparr>)) of
              Inl e \<Rightarrow> Inl e | Inr u \<Rightarrow> Inr 0)
       \<and> (\<forall>b. fst (main (w\<lparr>unlink_raises := b\<rparr>) a s) = fst (main w a s))"
proof (intro conjI allI impI)
  assume "\<not> unlink_raises w"
  then show "tmp_file (snd (main w a s)) = None"
    using assms by (simp add: main_ready main_finally_def)
next
  show "fst (main w a s) =
           (case fst (main_try w a config (s\<lparr>tmp_file := Some content\<rparr>)) of
              Inl e \<Rightarrow> Inl e | Inr u \<Rightarrow> Inr 0)"
    using assms by (simp add: main_ready)
next
  fix b
  let ?w = "w\<lparr>unlink_raises := b\<rparr>"
  from detect_language_in_table[OF assms(2)] obtain language
    where t: "(language, config) \<in> set LANGUAGE_CONFIGS" by blast
  have d: "detect_language ?w = Inr config" using assms(2) by simp
  have c: "dockerfile_content ?w config = Inr content"
    using dockerfile_content_agree(2)[OF t, where ?w1.0="?w" and ?w2.0=w] assms(3) by simp
  have i: "is_dir ?w" using assms(1) by simp
  have "fst (main ?w a s) =
           (case fst (main_try ?w a config (s\<lparr>tmp_file := Some content\<rparr>)) of
              Inl e \<Rightarrow> Inl e | Inr u \<Rightarrow> Inr 0)"
    using main_ready[OF i d c, where a=a and s=s] by simp
  also have "\<dots> = (case fst (main_try w a config (s\<lparr>tmp_file := Some content\<rparr>)) of
              Inl e \<Rightarrow> Inl e | Inr u \<Rightarrow> Inr 0)"
    by (simp only: main_try_unlink[OF t])
  also have "\<dots> = fst (main w a s)" using assms by (simp add: main_ready)
  finally show "fst (main ?w a s) = fst (main w a s)" .
qed

theorem C5_cleanup_best_effort_witness:
  "is_dir world_build_fails
   \<and> detect_language world_build_fails = Inr (snd (LANGUAGE_CONFIGS ! 0))
   \<and> \<not> unlink_raises world_build_fails
   \<and> fst (main world_build_fails args_plain fresh_state) =
        Inl (OrchestratorError
          ''Command failed with exit code 1: docker build -f /tmp/tmpk3x9.Dockerfile -t library/app /srv/repo\<newline>stdout:\<newline>None\<newline>\<newline>stderr:\<newline>None'')
   \<and> tmp_file (snd (main world_build_fails args_plain fresh_state)) = None"
proof -
  have i: "is_dir world_build_fails"
    by (simp add: world_build_fails_def repo_c_def fixture_defs)
  have d: "detect_language world_build_fails = Inr (snd (LANGUAGE_CONFIGS ! 0))"
    by (simp add: world_build_fails_def repo_c_def fixture_defs run_defs LANGUAGE_CONFIGS_def)
  have c: "dockerfile_content world_build_fails (snd (LANGUAGE_CONFIGS ! 0)) =
             Inr (render_dockerfile world_build_fails (snd (LANGUAGE_CONFIGS ! 0)) None)"
    by (rule dockerfile_content_plain)
       (simp_all add: world_build_fails_def repo_c_def fixture_defs)
  have u: "\<not> unlink_raises world_build_fails"
    by (simp add: world_build_fails_def repo_c_def fixture_defs)
  have f: "fst (main world_build_fails args_plain fresh_state) =
        Inl (OrchestratorError
          ''Command failed with exit code 1: docker build -f /tmp/tmpk3x9.Dockerfile -t library/app /srv/repo\<newline>stdout:\<newline>None\<newline>\<newline>stderr:\<newline>None'')"
    by (simp add: world_build_fails_def repo_c_def args_plain_def fresh_state_def
        fixture_defs run_defs eval_defs str_defs)
  from C5_cleanup_best_effort[OF i d c, of args_plain fresh_state] u
  have "tmp_file (snd (main world_build_fails args_plain fresh_state)) = None" by blast
  with i d u f show ?thesis by simp
qed

text \<open>
  The claim as first stated has the path gone after every such run. When the removal
  raises an \<open>OSError\<close> the error is dropped, the run returns 0, and the file is still
  there.
\<close>

theorem C5_path_remains_counterexample:
  "is_dir world_unlink_fails
   \<and> detect_language world_unlink_fails = Inr (snd (LANGUAGE_CONFIGS ! 0))
   \<and> fst (main world_unlink_fails args_plain fresh_state) = Inr 0
   \<and> tmp_file (snd (main world_unlink_fails args_plain fresh_state)) \<noteq> None"
  by (simp add: world_unlink_fails_def repo_c_def args_plain_def fresh_state_def
      fixture_defs run_defs eval_defs)

subsection \<open>C6: effective registry\<close>

text \<open>
  C6. When no \<open>--registry\<close> is given, the effective registry is the part of the image
  reference before its first \<open>/\<close> if and only if the reference contains a \<open>/\<close> and that
  part contains a dot or a colon; otherwise there is no effective registry, and
  \<open>docker_login\<close> returns without starting any command.
\<close>

theorem C6_effective_registry:
  assumes "arg_registry a = None"
  shows "(\<forall>r. effective_registry a = Some r \<longleftrightarrow>
            (CHR ''/'' \<in> set (arg_image a)
             \<and> r = takeWhile (\<lambda>c. c \<noteq> CHR ''/'') (arg_image a)
             \<and> (CHR ''.'' \<in> set r \<or> CHR '':'' \<in> set r)))
       \<and> (effective_registry a = None \<longrightarrow> docker_login w (effective_registry a) s = (Inr (), s))"
  using assms
  by (auto simp: effective_registry_def py_not_def extract_registry_eq Let_def docker_login_def)

theorem C6_effective_registry_witness:
  "arg_registry args_registry_host = None
   \<and> effective_registry args_registry_host = Some ''registry.example.com''
   \<and> arg_registry args_library = None
   \<and> effective_registry args_library = None
   \<and> docker_login quiet_world (effective_registry args_library) fresh_state = (Inr (), fresh_state)"
proof -
  have h1: "arg_registry args_registry_host = None" by (simp add: args_registry_host_def)
  have h2: "arg_registry args_library = None" by (simp add: args_library_def)
  have e2: "effective_registry args_library = None"
    using C6_effective_registry[OF h2, of quiet_world fresh_state]
    by (cases "effective_registry args_library") (simp_all add: args_library_def)
  from C6_effective_registry[OF h1, of quiet_world fresh_state]
  have e1: "effective_registry args_registry_host = Some ''registry.example.com''"
    by (simp add: args_registry_host_def)
  from C6_effective_registry[OF h2, of quiet_world fresh_state] e2
  have "docker_login quiet_world (effective_registry args_library) fresh_state = (Inr (), fresh_state)"
    by blast
  with h1 h2 e1 e2 show ?thesis by simp
qed

subsection \<open>C7: determinism of the synthesis\<close>

text \<open>
  C7. For every profile of the table, two runs that see the same environment and the same
  repository (the same files present, the same symbolic links, the same file texts)
  produce the same descriptor text, whatever else differs between them: the outcome of
  external commands, the name of the temporary file, the location of the repository.
\<close>

theorem C7_synthesis_deterministic:
  assumes "(language, config) \<in> set LANGUAGE_CONFIGS"
    and "environ w1 = environ w2"
    and "exists w1 = exists w2"
    and "is_symlink w1 = is_symlink w2"
    and "read_text w1 = read_text w2"
  shows "render_dockerfile w1 config snippet = render_dockerfile w2 config snippet
       \<and> dockerfile_content w1 config = dockerfile_content w2 config"
proof -
  have i: "dockerfile_instructions config w1 = dockerfile_instructions config w2"
    using assms(1,3,4) by (rule registry_instructions_agree)
  have b: "resolve_base_image w1 config = resolve_base_image w2 config"
    using assms(2) by (simp add: resolve_base_image_def)
  have r: "render_dockerfile w1 config x = render_dockerfile w2 config x" for x
    using i b by (simp add: render_dockerfile_def)
  have p: "path_exists w1 = path_exists w2"
    using assms(3,4) by (simp add: path_exists_def fun_eq_iff)
  have "dockerfile_content w1 config = dockerfile_content w2 config"
    using r p assms(5)
    by (simp add: dockerfile_content_def locate_customizations_def split: sum.splits)
  with r show ?thesis by simp
qed

theorem C7_synthesis_deterministic_witness:
  "dockerfile_content repo_c_append (snd (LANGUAGE_CONFIGS ! 0)) = Inr descriptor_c_append
   \<and> dockerfile_content world_other_machine (snd (LANGUAGE_CONFIGS ! 0)) = Inr descriptor_c_append
   \<and> tmp_name world_other_machine \<noteq> tmp_name repo_c_append"
proof -
  have h: "(''c'', snd (LANGUAGE_CONFIGS ! 0)) \<in> set LANGUAGE_CONFIGS"
    by (simp add: LANGUAGE_CONFIGS_def)
  have e: "environ repo_c_append = environ world_other_machine"
    "exists repo_c_append = exists world_other_machine"
    "is_symlink repo_c_append = is_symlink world_other_machine"
    "read_text repo_c_append = read_text world_other_machine"
    by (simp_all add: world_other_machine_def read_text_def fun_eq_iff)
  have d: "dockerfile_content repo_c_append (snd (LANGUAGE_CONFIGS ! 0)) = Inr descriptor_c_append"
    by (simp add: repo_c_append_def descriptor_c_append_def fixture_defs eval_defs)
  have n: "tmp_name world_other_machine \<noteq> tmp_name repo_c_append"
    by (simp add: world_other_machine_def repo_c_append_def fixture_defs)
  from C7_synthesis_deterministic[OF h e, of "None"] d n show ?thesis by simp
qed

subsection \<open>C8: skipping the tests\<close>

text \<open>
  C8. With the skip-tests flag set the test stage returns at once, starts no command and
  does not even ask the profile for its test command; over the whole run no \<open>docker run\<close>
  is added to the commands started, also for a profile whose test command would resolve.
\<close>

theorem C8_skip_tests:
  "build_test_in_container w config True s = (Inr (), s)
   \<and> (arg_skip_tests a \<longrightarrow>
        filter is_test_invocation (invoked (snd (main w a s)))
          = filter is_test_invocation (invoked s))"
  by (simp add: build_test_skipped main_skip_invoked)

theorem C8_skip_tests_witness:
  "test_command (snd (LANGUAGE_CONFIGS ! 1)) repo_java = Inr (Some [''mvn'', ''test''])
   \<and> detect_language repo_java = Inr (snd (LANGUAGE_CONFIGS ! 1))
   \<and> arg_skip_tests args_skip_tests
   \<and> invoked (snd (main repo_java args_skip_tests fresh_state)) =
        [([''docker'', ''build'', ''-f'', ''/tmp/tmpk3x9.Dockerfile'', ''-t'', ''library/app'',
           ''/srv/repo''], None),
         ([''docker'', ''push'', ''library/app''], None)]
   \<and> filter is_test_invocation (invoked (snd (main repo_java args_skip_tests fresh_state))) = []
   \<and> invoked (snd (main repo_java args_plain fresh_state)) =
        [([''docker'', ''run'', ''--rm'', ''-v'', ''/srv/repo:/app'', ''-w'', ''/app'',
           ''whanos-java:latest'', ''mvn'', ''test''], None),
         ([''docker'', ''build'', ''-f'', ''/tmp/tmpk3x9.Dockerfile'', ''-t'', ''library/app'',
           ''/srv/repo''], None),
         ([''docker'', ''push'', ''library/app''], None)]"
proof -
  have k: "arg_skip_tests args_skip_tests" by (simp add: args_skip_tests_def)
  have f: "filter is_test_invocation (invoked fresh_state) = []" by (simp add: fresh_state_def)
  have t: "test_command (snd (LANGUAGE_CONFIGS ! 1)) repo_java = Inr (Some [''mvn'', ''test''])"
    by (simp add: LANGUAGE_CONFIGS_def test_command_java_def)
  have d: "detect_language repo_java = Inr (snd (LANGUAGE_CONFIGS ! 1))"
    by (simp add: repo_java_def fixture_defs run_defs LANGUAGE_CONFIGS_def)
  have i1: "invoked (snd (main repo_java args_skip_tests fresh_state)) =
        [([''docker'', ''build'', ''-f'', ''/tmp/tmpk3x9.Dockerfile'', ''-t'', ''library/app'',
           ''/srv/repo''], None),
         ([''docker'', ''push'', ''library/app''], None)]"
    by (simp add: repo_java_def args_skip_tests_def args_plain_def fresh_state_def
        fixture_defs run_defs eval_defs)
  have i2: "invoked (snd (main repo_java args_plain fresh_state)) =
        [([''docker'', ''run'', ''--rm'', ''-v'', ''/srv/repo:/app'', ''-w'', ''/app'',
           ''whanos-java:latest'', ''mvn'', ''test''], None),
         ([''docker'', ''build'', ''-f'', ''/tmp/tmpk3x9.Dockerfile'', ''-t'', ''library/app'',
           ''/srv/repo''], None),
         ([''docker'', ''push'', ''library/app''], None)]"
    by (simp add: repo_java_def args_plain_def fresh_state_def
        fixture_defs run_defs eval_defs)
  from C8_skip_tests[of repo_java "snd (LANGUAGE_CONFIGS ! 1)" fresh_state args_skip_tests] k f
  have "filter is_test_invocation (invoked (snd (main repo_java args_skip_tests fresh_state))) = []"
    by simp
  with k t d i1 i2 show ?thesis by simp
qed

subsection \<open>C9: one entry point, last\<close>

text \<open>
  C9. For every profile of the table and every repository, the instruction list of the
  profile holds exactly one \<open>CMD\<close> instruction, and it is the last element of the list.
\<close>

theorem C9_one_cmd_last:
  assumes "(language, config) \<in> set LANGUAGE_CONFIGS"
  shows "length (filter is_cmd (dockerfile_instructions config w)) = 1
       \<and> dockerfile_instructions config w \<noteq> []
       \<and> is_cmd (last (dockerfile_instructions config w))"
  using assms unfolding LANGUAGE_CONFIGS_def
  by (auto simp: docker_steps_c_def docker_steps_java_def docker_steps_javascript_def
      docker_steps_python_def docker_steps_befunge_def is_cmd_def is_space_def)

theorem C9_one_cmd_last_witness:
  "(''python'', snd (LANGUAGE_CONFIGS ! 3)) \<in> set LANGUAGE_CONFIGS
   \<and> length (filter is_cmd (dockerfile_instructions (snd (LANGUAGE_CONFIGS ! 3)) quiet_world)) = 1
   \<and> is_cmd (last (dockerfile_instructions (snd (LANGUAGE_CONFIGS ! 3)) quiet_world))"
proof -
  have h: "(''python'', snd (LANGUAGE_CONFIGS ! 3)) \<in> set LANGUAGE_CONFIGS"
    by (simp add: LANGUAGE_CONFIGS_def)
  from C9_one_cmd_last[OF h, of quiet_world] h show ?thesis by simp
qed

subsection \<open>C10: the javascript test command\<close>

text \<open>
  C10, as amended. When \<open>package.json\<close> is missing (reading it raises
  \<open>FileNotFoundError\<close>) or its text is not valid JSON, the javascript resolver returns no
  test command, and the test stage then returns without starting a command and without
  an error. Any other error of reading the file (a permission error, a directory, bytes
  that are not UTF-8) is not caught: the resolver raises it and the test stage fails with
  it. When the manifest is a JSON object whose \<open>scripts\<close> entry is an object, the resolver
  returns the command \<open>npm test -- --watch=false\<close> exactly when \<open>scripts\<close> has the key
  \<open>test\<close>; when the manifest is an object without a \<open>scripts\<close> entry it returns none.
\<close>

theorem C10_javascript_test_command:
  assumes "(''javascript'', config) \<in> set LANGUAGE_CONFIGS"
  shows "test_command config w = test_command_javascript w
       \<and> (read_text w [''package.json''] = Inl FileNotFoundError \<longrightarrow>
            test_command_javascript w = Inr None)
       \<and> (\<forall>manifest. read_text w [''package.json''] = Inr manifest \<and> json_loads w manifest = None \<longrightarrow>
            test_command_javascript w = Inr None)
       \<and> (\<forall>e. read_text w [''package.json''] = Inl e \<and> e \<noteq> FileNotFoundError \<longrightarrow>
            test_command_javascript w = Inl e
            \<and> build_test_in_container w config False s = (Inl e, s))
       \<and> (\<forall>manifest kvs scripts.
            read_text w [''package.json''] = Inr manifest
            \<and> json_loads w manifest = Some (JObj kvs)
            \<and> map_of kvs ''scripts'' = Some (JObj scripts) \<longrightarrow>
            test_command_javascript w =
              (if ''test'' \<in> set (map fst scripts)
               then Inr (Some [''npm'', ''test'', ''--'', ''--watch=false''])
               else Inr None))
       \<and> (\<forall>manifest kvs.
            read_text w [''package.json''] = Inr manifest
            \<and> json_loads w manifest = Some (JObj kvs)
            \<and> map_of kvs ''scripts'' = None \<longrightarrow>
            test_command_javascript w = Inr None)
       \<and> (test_command_javascript w = Inr None \<longrightarrow>
            build_test_in_container w config False s = (Inr (), s))"
proof (intro conjI allI impI)
  show tc: "test_command config w = test_command_javascript w"
    using javascript_profile[OF assms] by simp
  {
    assume "read_text w [''package.json''] = Inl FileNotFoundError"
    then show "test_command_javascript w = Inr None"
      by (simp add: test_command_javascript_def)
  }
  {
    fix manifest
    assume "read_text w [''package.json''] = Inr manifest \<and> json_loads w manifest = None"
    then show "test_command_javascript w = Inr None"
      by (simp add: test_command_javascript_def)
  }
  {
    fix e
    assume h: "read_text w [''package.json''] = Inl e \<and> e \<noteq> FileNotFoundError"
    then show r: "test_command_javascript w = Inl e"
      by (simp add: test_command_javascript_def)
    from r tc have "test_command config w = Inl e" by simp
    then show "build_test_in_container w config False s = (Inl e, s)"
      by (rule build_test_raises)
  }
  {
    fix manifest kvs scripts
    assume "read_text w [''package.json''] = Inr manifest
            \<and> json_loads w manifest = Some (JObj kvs)
            \<and> map_of kvs ''scripts'' = Some (JObj scripts)"
    then show "test_command_javascript w =
              (if ''test'' \<in> set (map fst scripts)
               then Inr (Some [''npm'', ''test'', ''--'', ''--watch=false''])
               else Inr None)"
      by (cases scripts) (auto simp: test_command_javascript_def Let_def)
  }
  {
    fix manifest kvs
    assume "read_text w [''package.json''] = Inr manifest
            \<and> json_loads w manifest = Some (JObj kvs)
            \<and> map_of kvs ''scripts'' = None"
    then show "test_command_javascript w = Inr None"
      by (simp add: test_command_javascript_def Let_def)
  }
  {
    assume "test_command_javascript w = Inr None"
    with tc have "test_command config w = Inr None" by simp
    then show "build_test_in_container w config False s = (Inr (), s)"
      by (rule build_test_no_command)
  }
qed

theorem C10_javascript_test_command_witness:
  "(''javascript'', snd (LANGUAGE_CONFIGS ! 2)) \<in> set LANGUAGE_CONFIGS
   \<and> test_command (snd (LANGUAGE_CONFIGS ! 2)) repo_js
        = Inr (Some [''npm'', ''test'', ''--'', ''--watch=false''])
   \<and> test_command (snd (LANGUAGE_CONFIGS ! 2)) repo_js_broken = Inr None
   \<and> build_test_in_container repo_js_broken (snd (LANGUAGE_CONFIGS ! 2)) False fresh_state
        = (Inr (), fresh_state)
   \<and> test_command (snd (LANGUAGE_CONFIGS ! 2)) quiet_world = Inr None"
proof -
  have h: "(''javascript'', snd (LANGUAGE_CONFIGS ! 2)) \<in> set LANGUAGE_CONFIGS"
    by (simp add: LANGUAGE_CONFIGS_def)
  have r1: "read_text repo_js [''package.json''] = Inr manifest_with_test
            \<and> json_loads repo_js manifest_with_test
                = Some (JObj [(''scripts'', JObj [(''test'', JStr ''jest'')])])
            \<and> map_of [(''scripts'', JObj [(''test'', JStr ''jest'')])] ''scripts''
                = Some (JObj [(''test'', JStr ''jest'')])"
    by (simp add: repo_js_def manifest_with_test_def fixture_defs)
  have r2: "read_text repo_js_broken [''package.json''] = Inr ''{''
            \<and> json_loads repo_js_broken ''{'' = None"
    by (simp add: repo_js_broken_def fixture_defs)
  have r3: "read_text quiet_world [''package.json''] = Inl FileNotFoundError"
    by (simp add: quiet_world_def read_text_def)
  note a = C10_javascript_test_command[OF h, of repo_js fresh_state]
  note b = C10_javascript_test_command[OF h, of repo_js_broken fresh_state]
  note c = C10_javascript_test_command[OF h, of quiet_world fresh_state]
  note a1 = a[THEN conjunct1]
  note a5 = a[THEN conjunct2, THEN conjunct2, THEN conjunct2, THEN conjunct2, THEN conjunct1,
              rule_format, OF r1]
  from a1 a5 have 1: "test_command (snd (LANGUAGE_CONFIGS ! 2)) repo_js
        = Inr (Some [''npm'', ''test'', ''--'', ''--watch=false''])"
    by simp
  note b1 = b[THEN conjunct1]
  note b3 = b[THEN conjunct2, THEN conjunct2, THEN conjunct1, rule_format, OF r2]
  note b7 = b[THEN conjunct2, THEN conjunct2, THEN conjunct2, THEN conjunct2, THEN conjunct2,
              THEN conjunct2, rule_format, OF b3]
  from b1 b3 b7 have 3: "test_command (snd (LANGUAGE_CONFIGS ! 2)) repo_js_broken = Inr None
     \<and> build_test_in_container repo_js_broken (snd (LANGUAGE_CONFIGS ! 2)) False fresh_state
        = (Inr (), fresh_state)" by simp
  note c1 = c[THEN conjunct1]
  note c2 = c[THEN conjunct2, THEN conjunct1, rule_format, OF r3]
  from c1 c2 have 4: "test_command (snd (LANGUAGE_CONFIGS ! 2)) quiet_world = Inr None" by simp
  from h 1 3 4 show ?thesis by simp
qed

text \<open>
  The claim as first stated has an unreadable \<open>package.json\<close> give no test command. A
  \<open>package.json\<close> that exists and whose reading raises \<open>PermissionError\<close> makes the
  resolver raise that error, and the run ends with it.
\<close>

theorem C10_unreadable_manifest_counterexample:
  "detect_language repo_js_unreadable = Inr (snd (LANGUAGE_CONFIGS ! 2))
   \<and> read_text repo_js_unreadable [''package.json''] = Inl PermissionError
   \<and> test_command_javascript repo_js_unreadable = Inl PermissionError
   \<and> test_command_javascript repo_js_unreadable \<noteq> Inr None
   \<and> fst (main repo_js_unreadable args_plain fresh_state) = Inl PermissionError"
  by (simp add: repo_js_unreadable_def args_plain_def fresh_state_def
      fixture_defs run_defs eval_defs test_command_javascript_def)

end
